theory Spec2Isabelle
  imports Complex_Main "HOL-Library.Word"
begin

section \<open>JavaScript numbers\<close>

text \<open>
  Every numeric value of the program is a JavaScript \<open>number\<close>. The model keeps the
  special values that decide the behaviour of the gesture arithmetic (\<open>Infinity\<close>,
  \<open>-Infinity\<close>, \<open>NaN\<close>) and takes the finite values as exact reals: rounding, overflow
  of finite results and the sign of zero are not tracked (every zero is \<open>+0\<close>).
  No operation raises: division by zero yields an infinity or \<open>NaN\<close>, as in the language.
\<close>

datatype jsnum = Fin real | PInf | NInf | NaN


fun jneg :: "jsnum \<Rightarrow> jsnum" where
  "jneg (Fin a) = Fin (- a)"
| "jneg PInf = NInf"
| "jneg NInf = PInf"
| "jneg NaN = NaN"

fun jadd :: "jsnum \<Rightarrow> jsnum \<Rightarrow> jsnum" where
  "jadd NaN _ = NaN"
| "jadd _ NaN = NaN"
| "jadd (Fin a) (Fin b) = Fin (a + b)"
| "jadd PInf NInf = NaN"
| "jadd NInf PInf = NaN"
| "jadd PInf _ = PInf"
| "jadd _ PInf = PInf"
| "jadd NInf _ = NInf"
| "jadd _ NInf = NInf"

definition jsub :: "jsnum \<Rightarrow> jsnum \<Rightarrow> jsnum" where
  "jsub a b = jadd a (jneg b)"

fun jmul :: "jsnum \<Rightarrow> jsnum \<Rightarrow> jsnum" where
  "jmul NaN _ = NaN"
| "jmul _ NaN = NaN"
| "jmul (Fin a) (Fin b) = Fin (a * b)"
| "jmul PInf (Fin b) = (if b = 0 then NaN else if 0 < b then PInf else NInf)"
| "jmul NInf (Fin b) = (if b = 0 then NaN else if 0 < b then NInf else PInf)"
| "jmul (Fin a) PInf = (if a = 0 then NaN else if 0 < a then PInf else NInf)"
| "jmul (Fin a) NInf = (if a = 0 then NaN else if 0 < a then NInf else PInf)"
| "jmul PInf PInf = PInf"
| "jmul NInf NInf = PInf"
| "jmul PInf NInf = NInf"
| "jmul NInf PInf = NInf"

fun jdiv :: "jsnum \<Rightarrow> jsnum \<Rightarrow> jsnum" where
  "jdiv NaN _ = NaN"
| "jdiv _ NaN = NaN"
| "jdiv (Fin a) (Fin b) =
     (if b \<noteq> 0 then Fin (a / b)
      else if a = 0 then NaN else if 0 < a then PInf else NInf)"
| "jdiv (Fin a) PInf = Fin 0"
| "jdiv (Fin a) NInf = Fin 0"
| "jdiv PInf (Fin b) = (if 0 \<le> b then PInf else NInf)"
| "jdiv NInf (Fin b) = (if 0 \<le> b then NInf else PInf)"
| "jdiv PInf PInf = NaN"
| "jdiv PInf NInf = NaN"
| "jdiv NInf PInf = NaN"
| "jdiv NInf NInf = NaN"

text \<open>\<open>Math.min\<close> and \<open>Math.max\<close>: \<open>NaN\<close> as soon as one argument is \<open>NaN\<close>.\<close>

fun Math_min :: "jsnum \<Rightarrow> jsnum \<Rightarrow> jsnum" where
  "Math_min NaN _ = NaN"
| "Math_min _ NaN = NaN"
| "Math_min (Fin a) (Fin b) = Fin (min a b)"
| "Math_min NInf _ = NInf"
| "Math_min _ NInf = NInf"
| "Math_min PInf b = b"
| "Math_min a PInf = a"

fun Math_max :: "jsnum \<Rightarrow> jsnum \<Rightarrow> jsnum" where
  "Math_max NaN _ = NaN"
| "Math_max _ NaN = NaN"
| "Math_max (Fin a) (Fin b) = Fin (max a b)"
| "Math_max PInf _ = PInf"
| "Math_max _ PInf = PInf"
| "Math_max NInf b = b"
| "Math_max a NInf = a"

text \<open>The comparison \<open>a < b\<close>: false as soon as one side is \<open>NaN\<close>.\<close>

fun jless :: "jsnum \<Rightarrow> jsnum \<Rightarrow> bool" where
  "jless NaN _ = False"
| "jless _ NaN = False"
| "jless (Fin a) (Fin b) = (a < b)"
| "jless _ NInf = False"
| "jless NInf _ = True"
| "jless PInf _ = False"
| "jless _ PInf = True"

text \<open>\<open>Math.hypot\<close> of two arguments: an infinite argument wins over \<open>NaN\<close>.\<close>

fun Math_hypot :: "jsnum \<Rightarrow> jsnum \<Rightarrow> jsnum" where
  "Math_hypot PInf _ = PInf"
| "Math_hypot NInf _ = PInf"
| "Math_hypot _ PInf = PInf"
| "Math_hypot _ NInf = PInf"
| "Math_hypot NaN _ = NaN"
| "Math_hypot _ NaN = NaN"
| "Math_hypot (Fin a) (Fin b) = Fin (sqrt (a * a + b * b))"

text \<open>
  \<open>Math.atan2 y x\<close> on finite arguments: the angle of the vector \<open>(x, y)\<close> in
  \<open>(-\<pi>, \<pi>]\<close>, with \<open>atan2 0 0 = 0\<close>.
\<close>

definition atan2r :: "real \<Rightarrow> real \<Rightarrow> real" where
  "atan2r b a =
     (if 0 < a then arctan (b / a)
      else if a < 0 then (if 0 \<le> b then arctan (b / a) + pi else arctan (b / a) - pi)
      else if 0 < b then pi / 2
      else if b < 0 then - (pi / 2)
      else 0)"

fun Math_atan2 :: "jsnum \<Rightarrow> jsnum \<Rightarrow> jsnum" where
  "Math_atan2 NaN _ = NaN"
| "Math_atan2 _ NaN = NaN"
| "Math_atan2 (Fin b) (Fin a) = Fin (atan2r b a)"
| "Math_atan2 PInf PInf = Fin (pi / 4)"
| "Math_atan2 PInf NInf = Fin (3 * pi / 4)"
| "Math_atan2 PInf (Fin a) = Fin (pi / 2)"
| "Math_atan2 NInf PInf = Fin (- (pi / 4))"
| "Math_atan2 NInf NInf = Fin (- (3 * pi / 4))"
| "Math_atan2 NInf (Fin a) = Fin (- (pi / 2))"
| "Math_atan2 (Fin b) PInf = Fin 0"
| "Math_atan2 (Fin b) NInf = (if 0 \<le> b then Fin pi else Fin (- pi))"

definition Math_PI :: jsnum where
  "Math_PI = Fin pi"

section \<open>Data model (types.ts)\<close>

text \<open>
  \<open>TouchState\<close> is \<open>{id, x, y}\<close> and \<open>TransformState\<close> is \<open>{x, y, scale, rotation}\<close>; the
  geometry functions return and read plain \<open>{x, y}\<close> objects. Both are extensions of the
  record of the two coordinates, so that a function reading \<open>.x\<close> and \<open>.y\<close> accepts each
  of them, as the structural typing of the source does.
\<close>

record Point =
  x :: jsnum
  y :: jsnum

record TouchState = Point +
  ident :: int

record TransformState = Point +
  scale :: jsnum
  rotation :: jsnum

definition INITIAL_TRANSFORM :: TransformState where
  "INITIAL_TRANSFORM = \<lparr>x = Fin 0, y = Fin 0, scale = Fin 1, rotation = Fin 0\<rparr>"

section \<open>GeometryKit (utils/geometry.ts)\<close>

definition getDistance :: "'a Point_scheme \<Rightarrow> 'b Point_scheme \<Rightarrow> jsnum" where
  "getDistance p1 p2 = Math_hypot (jsub (x p2) (x p1)) (jsub (y p2) (y p1))"

definition getAngle :: "'a Point_scheme \<Rightarrow> 'b Point_scheme \<Rightarrow> jsnum" where
  "getAngle p1 p2 =
     jdiv (jmul (Math_atan2 (jsub (y p2) (y p1)) (jsub (x p2) (x p1))) (Fin 180)) Math_PI"

definition getMidpoint :: "'a Point_scheme \<Rightarrow> 'b Point_scheme \<Rightarrow> Point" where
  "getMidpoint p1 p2 =
     \<lparr>x = jdiv (jadd (x p1) (x p2)) (Fin 2), y = jdiv (jadd (y p1) (y p2)) (Fin 2)\<rparr>"

section \<open>GestureEngine (WireframeOverlay)\<close>

text \<open>
  One entry of the event's \<open>touches\<close> list, as the handlers read it.
\<close>

record Touch =
  "identifier" :: int
  clientX :: jsnum
  clientY :: jsnum

text \<open>
  A \<open>Map<number, TouchState>\<close> keeps its keys in insertion order; \<open>set\<close> on a key that is
  present replaces the value in place.
\<close>

type_synonym TouchMap = "(int \<times> TouchState) list"

fun map_set :: "int \<Rightarrow> TouchState \<Rightarrow> TouchMap \<Rightarrow> TouchMap" where
  "map_set k v [] = [(k, v)]"
| "map_set k v ((k', v') # m) = (if k = k' then (k, v) # m else (k', v') # map_set k v m)"

definition map_values :: "TouchMap \<Rightarrow> TouchState list" where
  "map_values m = map snd m"

fun updateTouches_loop :: "Touch list \<Rightarrow> TouchMap \<Rightarrow> TouchMap" where
  "updateTouches_loop [] m = m"
| "updateTouches_loop (t # ts) m =
     updateTouches_loop ts
       (map_set (identifier t) \<lparr>x = clientX t, y = clientY t, ident = identifier t\<rparr> m)"

definition updateTouches :: "Touch list \<Rightarrow> TouchMap" where
  "updateTouches touches = updateTouches_loop touches []"

record GestureData =
  distance :: jsnum
  angle :: jsnum
  center :: Point

text \<open>The three refs of the component: they survive from one event to the next.\<close>

record Refs =
  activeTouches :: TouchMap
  initialTransform :: TransformState
  initialGestureData :: "GestureData option"

text \<open>
  \<open>useRef\<close> initial values: an empty map, a copy of the \<open>transform\<close> prop, \<open>null\<close>.
\<close>

definition initRefs :: "TransformState \<Rightarrow> Refs" where
  "initRefs transform =
     \<lparr>activeTouches = [], initialTransform = transform, initialGestureData = None\<rparr>"

definition handleTouchStart :: "Touch list \<Rightarrow> TransformState \<Rightarrow> Refs \<Rightarrow> Refs" where
  "handleTouchStart e transform refs =
     (let touchMap = updateTouches e;
          refs1 = refs\<lparr>activeTouches := touchMap, initialTransform := transform\<rparr>;
          points = map_values touchMap
      in if length touchMap = 2 then
           refs1\<lparr>initialGestureData := Some
             \<lparr>distance = getDistance (points ! 0) (points ! 1),
              angle = getAngle (points ! 0) (points ! 1),
              center = getMidpoint (points ! 0) (points ! 1)\<rparr>\<rparr>
         else if length touchMap = 1 then
           refs1\<lparr>initialGestureData := Some
             \<lparr>distance = Fin 0, angle = Fin 0,
              center = \<lparr>x = x (points ! 0), y = y (points ! 0)\<rparr>\<rparr>\<rparr>
         else refs1)"

text \<open>
  \<open>handleTouchMove\<close> returns the refs and the argument of \<open>onTransformChange\<close>, or \<open>None\<close>
  when the callback is not called. The one-touch branch spreads the \<open>transform\<close> prop.
\<close>

definition handleTouchMove ::
  "Touch list \<Rightarrow> TransformState \<Rightarrow> Refs \<Rightarrow> Refs \<times> TransformState option" where
  "handleTouchMove e transform refs =
     (let touchMap = updateTouches e;
          refs1 = refs\<lparr>activeTouches := touchMap\<rparr>;
          touches = map_values touchMap
      in case initialGestureData refs1 of
           None \<Rightarrow> (refs1, None)
         | Some initial \<Rightarrow>
             if length touches = 2 then
               (let newDist = getDistance (touches ! 0) (touches ! 1);
                    newAngle = getAngle (touches ! 0) (touches ! 1);
                    newCenter = getMidpoint (touches ! 0) (touches ! 1);
                    initialTrans = initialTransform refs1;
                    scaleMultiplier = jdiv newDist (distance initial);
                    rotationDelta = jsub newAngle (angle initial);
                    dx = jsub (x newCenter) (x (center initial));
                    dy = jsub (y newCenter) (y (center initial))
                in (refs1, Some
                     \<lparr>x = jadd (x initialTrans) dx,
                      y = jadd (y initialTrans) dy,
                      scale = Math_max (Fin 0.2)
                                (Math_min (jmul (scale initialTrans) scaleMultiplier) (Fin 5)),
                      rotation = jadd (rotation initialTrans) rotationDelta\<rparr>))
             else if length touches = 1 then
               (let touch = touches ! 0;
                    initialTrans = initialTransform refs1;
                    dx = jsub (x touch) (x (center initial));
                    dy = jsub (y touch) (y (center initial))
                in (refs1, Some
                     (transform\<lparr>x := jadd (x initialTrans) dx,
                                y := jadd (y initialTrans) dy\<rparr>)))
             else (refs1, None))"

definition handleTouchEnd :: "Refs \<Rightarrow> Refs" where
  "handleTouchEnd refs = refs\<lparr>activeTouches := [], initialGestureData := None\<rparr>"

text \<open>
  The host (App) owns the transform: \<open>onTransformChange\<close> is its state setter, and the
  component is rendered again with the new value before the next event. \<open>onTouchCancel\<close>
  is wired to \<open>handleTouchEnd\<close>.
\<close>

datatype TouchEvent = TouchStart "Touch list" | TouchMove "Touch list" | TouchEnd | TouchCancel

fun dispatch :: "TouchEvent \<Rightarrow> TransformState \<times> Refs \<Rightarrow> TransformState \<times> Refs" where
  "dispatch (TouchStart e) (transform, refs) = (transform, handleTouchStart e transform refs)"
| "dispatch (TouchMove e) (transform, refs) =
     (case handleTouchMove e transform refs of
        (refs', Some t) \<Rightarrow> (t, refs')
      | (refs', None) \<Rightarrow> (transform, refs'))"
| "dispatch TouchEnd (transform, refs) = (transform, handleTouchEnd refs)"
| "dispatch TouchCancel (transform, refs) = (transform, handleTouchEnd refs)"

fun dispatchAll :: "TouchEvent list \<Rightarrow> TransformState \<times> Refs \<Rightarrow> TransformState \<times> Refs" where
  "dispatchAll [] s = s"
| "dispatchAll (ev # evs) s = dispatchAll evs (dispatch ev s)"

section \<open>Typed arrays\<close>

text \<open>
  Storing a number into a \<open>Uint8ClampedArray\<close> (the \<open>data\<close> of an \<open>ImageData\<close>) converts it
  with \<open>ToUint8Clamp\<close>: \<open>NaN\<close> becomes 0, the value is clamped to \<open>[0, 255]\<close> and rounded to
  the nearest integer, a tie going to the even one.
\<close>

fun ToUint8Clamp :: "jsnum \<Rightarrow> 8 word" where
  "ToUint8Clamp NaN = 0"
| "ToUint8Clamp NInf = 0"
| "ToUint8Clamp PInf = 255"
| "ToUint8Clamp (Fin v) =
     (if v \<le> 0 then 0
      else if 255 \<le> v then 255
      else (let f = \<lfloor>v\<rfloor>
            in if v < of_int f + 1 / 2 then word_of_int f
               else if of_int f + 1 / 2 < v then word_of_int (f + 1)
               else if even f then word_of_int f else word_of_int (f + 1)))"

text \<open>
  Reading a typed array at an index past its end gives \<open>undefined\<close>, which the arithmetic
  that follows turns into \<open>NaN\<close>; a store past the end is ignored, as \<open>xs[i := v]\<close> is.
\<close>

definition readU8 :: "8 word list \<Rightarrow> nat \<Rightarrow> jsnum" where
  "readU8 data i = (if i < length data then Fin (real (unat (data ! i))) else NaN)"

text \<open>
  Storing a number into an \<open>Int16Array\<close> converts it with \<open>ToInt16\<close>: \<open>NaN\<close> and the
  infinities become 0, the value is truncated towards zero and taken modulo \<open>2^16\<close> into
  the signed range.
\<close>

definition truncateReal :: "real \<Rightarrow> int" where
  "truncateReal v = (if 0 \<le> v then \<lfloor>v\<rfloor> else \<lceil>v\<rceil>)"

fun ToInt16 :: "jsnum \<Rightarrow> 16 word" where
  "ToInt16 (Fin v) = word_of_int (truncateReal v)"
| "ToInt16 _ = 0"

text \<open>
  Assigning a number to \<open>canvas.width\<close> or \<open>canvas.height\<close> (an \<open>unsigned long\<close>)
  truncates it and takes it modulo \<open>2^32\<close>.
\<close>

fun toUnsignedLong :: "jsnum \<Rightarrow> nat" where
  "toUnsignedLong (Fin v) = nat (truncateReal v mod 2 ^ 32)"
| "toUnsignedLong _ = 0"

section \<open>Pose generation: transparency post-process (App.tsx)\<close>

text \<open>
  The pixel loop of \<open>processImageForTransparency\<close> over the flat RGBA array: \<open>i\<close> steps by
  4 while it is below the length; the three colour channels are read, then overwritten
  with 255, and the alpha channel receives the brightness, or 0 below 20.
\<close>

function transparency_loop :: "nat \<Rightarrow> 8 word list \<Rightarrow> 8 word list" where
  "transparency_loop i data =
     (if i < length data then
        (let r = readU8 data i;
             g = readU8 data (i + 1);
             b = readU8 data (i + 2);
             brightness = jdiv (jadd (jadd r g) b) (Fin 3);
             data1 = data[i := 255];
             data2 = data1[i + 1 := 255];
             data3 = data2[i + 2 := 255];
             alpha = (if jless brightness (Fin 20) then Fin 0 else brightness)
         in transparency_loop (i + 4) (data3[i + 3 := ToUint8Clamp alpha]))
      else data)"
  by pat_completeness auto
termination
  by (relation "measure (\<lambda>(i, data). length data - i)") auto

definition processPixels :: "8 word list \<Rightarrow> 8 word list" where
  "processPixels data = transparency_loop 0 data"

section \<open>Live session: microphone PCM conversion (App.tsx)\<close>

text \<open>
  The body of the loop of \<open>onaudioprocess\<close>: the value stored at \<open>pcmData[i]\<close> for the
  sample \<open>inputData[i]\<close>. The loop writes each index once from the sample of the same
  index, so it is the recursion over the input buffer.
\<close>

definition pcmValue :: "jsnum \<Rightarrow> jsnum" where
  "pcmValue sample = jmul (Math_max (Fin (- 1)) (Math_min (Fin 1) sample)) (Fin 32767)"

fun pcmConvert :: "jsnum list \<Rightarrow> 16 word list" where
  "pcmConvert [] = []"
| "pcmConvert (sample # inputData) = ToInt16 (pcmValue sample) # pcmConvert inputData"

section \<open>Live session: the composited frame (App.tsx)\<close>

datatype FacingMode = User | Environment

record VideoElement =
  videoWidth :: nat
  videoHeight :: nat

text \<open>
  What the interval callback of \<open>startLiveSession\<close> can see: the component state with the
  facing mode, the refs it reads, the window size, and whether the canvas gives a 2d
  context.
\<close>

record AppState =
  facingMode :: FacingMode
  videoRef :: "VideoElement option"
  poseTransformRef :: TransformState
  poseImageRef :: bool
  innerWidth :: nat
  innerHeight :: nat
  contextAvailable :: bool

text \<open>The calls on the 2d context, in the order they are made.\<close>

datatype Cmd =
    DrawVideo jsnum jsnum jsnum jsnum
  | Save
  | Restore
  | Translate jsnum jsnum
  | Rotate jsnum
  | Scale jsnum jsnum
  | DrawPose jsnum jsnum jsnum jsnum
  | SetFont string
  | SetFillStyle string
  | SetShadowColor string
  | SetShadowBlur jsnum
  | FillText string jsnum jsnum

record Frame =
  canvasWidth :: nat
  canvasHeight :: nat
  calls :: "Cmd list"

definition compositeFrame :: "AppState \<Rightarrow> Frame option" where
  "compositeFrame st =
     (case videoRef st of
        None \<Rightarrow> None
      | Some video \<Rightarrow>
          (let scale0 = Fin 0.5;
               cw = toUnsignedLong (jmul (Fin (real (videoWidth video))) scale0);
               ch = toUnsignedLong (jmul (Fin (real (videoHeight video))) scale0);
               cwidth = Fin (real cw);
               cheight = Fin (real ch)
           in if \<not> contextAvailable st then None
              else
                (let drawVideo = [DrawVideo (Fin 0) (Fin 0) cwidth cheight];
                     currentPoseTransform = poseTransformRef st;
                     overlay =
                       (if poseImageRef st then
                          (let screenW = Fin (real (innerWidth st));
                               screenH = Fin (real (innerHeight st));
                               videoW = Fin (real (videoWidth video));
                               videoH = Fin (real (videoHeight video));
                               scaleX = jdiv screenW videoW;
                               scaleY = jdiv screenH videoH;
                               scaleCover = Math_max scaleX scaleY;
                               canvasScaleFactor = jdiv cwidth videoW;
                               conversionRatio = jmul (jdiv (Fin 1) scaleCover) canvasScaleFactor;
                               drawW = jmul screenW conversionRatio;
                               drawH = jmul screenH conversionRatio
                           in [Save,
                               Translate (jdiv cwidth (Fin 2)) (jdiv cheight (Fin 2)),
                               Translate (jmul (x currentPoseTransform) conversionRatio)
                                         (jmul (y currentPoseTransform) conversionRatio),
                               Rotate (jdiv (jmul (rotation currentPoseTransform) Math_PI)
                                            (Fin 180)),
                               Scale (scale currentPoseTransform) (scale currentPoseTransform),
                               DrawPose (jdiv (jneg drawW) (Fin 2)) (jdiv (jneg drawH) (Fin 2))
                                        drawW drawH,
                               Restore])
                        else []);
                     markers =
                       [SetFont ''bold 40px Arial'',
                        SetFillStyle ''rgba(255, 255, 255, 0.8)'',
                        SetShadowColor ''black'',
                        SetShadowBlur (Fin 4),
                        FillText ''R'' (Fin 20) (jdiv cheight (Fin 2)),
                        FillText ''L'' (jsub cwidth (Fin 50)) (jdiv cheight (Fin 2))]
                 in Some \<lparr>canvasWidth = cw, canvasHeight = ch,
                           calls = drawVideo @ overlay @ markers\<rparr>)))"

text \<open>The text calls of a frame: glyph and position.\<close>

fun textCalls :: "Cmd list \<Rightarrow> (string \<times> jsnum \<times> jsnum) list" where
  "textCalls [] = []"
| "textCalls (FillText s a b # cs) = (s, a, b) # textCalls cs"
| "textCalls (_ # cs) = textCalls cs"

text \<open>
  The part of the 2d context that decides where a glyph lands: the transform calls in
  force (none is the identity, so coordinates are raster coordinates) and the stack of
  \<open>save\<close>. \<open>restore\<close> pops the saved transform, and does nothing on an empty stack; every
  \<open>fillText\<close> is recorded with its arguments and the transform calls in force.
\<close>

type_synonym CtxState = "Cmd list \<times> Cmd list list \<times> (string \<times> jsnum \<times> jsnum \<times> Cmd list) list"

fun execCmd :: "Cmd \<Rightarrow> CtxState \<Rightarrow> CtxState" where
  "execCmd Save (cur, stk, out) = (cur, cur # stk, out)"
| "execCmd Restore (cur, stk, out) =
     (case stk of [] \<Rightarrow> (cur, stk, out) | saved # rest \<Rightarrow> (saved, rest, out))"
| "execCmd (Translate a b) (cur, stk, out) = (cur @ [Translate a b], stk, out)"
| "execCmd (Rotate r) (cur, stk, out) = (cur @ [Rotate r], stk, out)"
| "execCmd (Scale a b) (cur, stk, out) = (cur @ [Scale a b], stk, out)"
| "execCmd (FillText s a b) (cur, stk, out) = (cur, stk, out @ [(s, a, b, cur)])"
| "execCmd _ st = st"

fun execAll :: "Cmd list \<Rightarrow> CtxState \<Rightarrow> CtxState" where
  "execAll [] st = st"
| "execAll (c # cs) st = execAll cs (execCmd c st)"

definition drawnText :: "Cmd list \<Rightarrow> (string \<times> jsnum \<times> jsnum \<times> Cmd list) list" where
  "drawnText cmds = snd (snd (execAll cmds ([], [], [])))"

section \<open>Reference definitions and fixtures\<close>

text \<open>
  The clamp of line 132, \<open>Math.max(0.2, Math.min(v, 5))\<close>, as a function of the
  unclamped product.
\<close>

definition clampScale :: "jsnum \<Rightarrow> jsnum" where
  "clampScale v = Math_max (Fin 0.2) (Math_min v (Fin 5))"

text \<open>
  The scale multiplier as the specification words it: the quotient of the two distances,
  taken as 1 when the reference distance is 0. It is compared with the quotient that
  \<open>handleTouchMove\<close> computes.
\<close>

definition scaleMultiplier_spec :: "jsnum \<Rightarrow> jsnum \<Rightarrow> jsnum" where
  "scaleMultiplier_spec newDistance referenceDistance =
     (if referenceDistance = Fin 0 then Fin 1 else jdiv newDistance referenceDistance)"

text \<open>A touch with finite coordinates, and a plain point, for the scenarios.\<close>

definition tch :: "int \<Rightarrow> real \<Rightarrow> real \<Rightarrow> Touch" where
  "tch i a b = \<lparr>identifier = i, clientX = Fin a, clientY = Fin b\<rparr>"


text \<open>
  One iteration of the pixel loop as a whole: the four stores of the pixel at index \<open>i\<close>,
  the alpha computed from the three channels read before the stores.
\<close>

definition pixel_step :: "nat \<Rightarrow> 8 word list \<Rightarrow> 8 word list" where
  "pixel_step i data =
     data[i := 255, i + 1 := 255, i + 2 := 255,
          i + 3 := ToUint8Clamp
            (let brightness = jdiv (jadd (jadd (readU8 data i) (readU8 data (i + 1)))
                                         (readU8 data (i + 2))) (Fin 3)
             in if jless brightness (Fin 20) then Fin 0 else brightness)]"

text \<open>
  The alpha byte that the loop stores for a pixel with the colour channels \<open>r\<close>, \<open>g\<close>, \<open>b\<close>.
\<close>

definition alphaOf :: "8 word \<Rightarrow> 8 word \<Rightarrow> 8 word \<Rightarrow> 8 word" where
  "alphaOf r g b =
     (let brightness = jdiv (jadd (jadd (Fin (real (unat r))) (Fin (real (unat g))))
                                  (Fin (real (unat b)))) (Fin 3)
      in ToUint8Clamp (if jless brightness (Fin 20) then Fin 0 else brightness))"

text \<open>
  What is shown of one converted sample: the stored value is within the symmetric 16-bit
  range, and it is the product truncated towards zero, not a wrapped value; \<open>NaN\<close> is
  stored as 0.
\<close>

definition pcmSampleOk :: "jsnum \<Rightarrow> 16 word \<Rightarrow> bool" where
  "pcmSampleOk sample w =
     (- 32767 \<le> sint w \<and> sint w \<le> 32767
      \<and> (case pcmValue sample of
            Fin v \<Rightarrow> - 32767 \<le> v \<and> v \<le> 32767 \<and> sint w = truncateReal v
          | _ \<Rightarrow> sample = NaN \<and> w = 0))"

text \<open>A state of the app for the scenarios: a 1280 by 720 video on a 390 by 844 window.\<close>

definition st0 :: AppState where
  "st0 = \<lparr>facingMode = Environment, videoRef = Some \<lparr>videoWidth = 1280, videoHeight = 720\<rparr>,
          poseTransformRef = INITIAL_TRANSFORM, poseImageRef = True,
          innerWidth = 390, innerHeight = 844, contextAvailable = True\<rparr>"

section \<open>Arithmetic of JavaScript numbers\<close>

lemmas gesture_defs = handleTouchStart_def handleTouchMove_def handleTouchEnd_def
  updateTouches_def map_values_def getDistance_def getAngle_def getMidpoint_def jsub_def
  Math_PI_def atan2r_def INITIAL_TRANSFORM_def initRefs_def Let_def tch_def








text \<open>The clamp bounds every value except \<open>NaN\<close>, which it lets through.\<close>

lemma clamp_range:
  assumes "v \<noteq> NaN"
  shows "\<exists>r. Math_max (Fin 0.2) (Math_min v (Fin 5)) = Fin r \<and> 0.2 \<le> r \<and> r \<le> 5"
proof (cases v)
  case (Fin a)
  then show ?thesis by (auto simp: max_def min_def)
next
  case PInf
  then show ?thesis by simp
next
  case NInf
  have "(0.2::real) \<le> 0.2 \<and> (0.2::real) \<le> 5" by simp
  with NInf show ?thesis by (intro exI [of _ "0.2"]) simp
next
  case NaN
  with assms show ?thesis by simp
qed

lemma clamp_NaN: "Math_max (Fin 0.2) (Math_min NaN (Fin 5)) = NaN"
  by simp

section \<open>GeometryKit: symmetry\<close>







section \<open>GestureEngine: the handlers on one and two touches\<close>

lemma length_map_values: "length (map_values m) = length m"
  by (simp add: map_values_def)

lemma handleTouchMove_two:
  assumes "initialGestureData refs = Some g" "map_values (updateTouches e) = [t0, t1]"
  shows "snd (handleTouchMove e tr refs) = Some
     \<lparr>x = jadd (x (initialTransform refs)) (jsub (x (getMidpoint t0 t1)) (x (center g))),
      y = jadd (y (initialTransform refs)) (jsub (y (getMidpoint t0 t1)) (y (center g))),
      scale = Math_max (Fin 0.2)
        (Math_min (jmul (scale (initialTransform refs))
                        (jdiv (getDistance t0 t1) (distance g))) (Fin 5)),
      rotation = jadd (rotation (initialTransform refs)) (jsub (getAngle t0 t1) (angle g))\<rparr>"
  using assms by (simp add: handleTouchMove_def Let_def)




section \<open>GestureEngine: the scale clamp\<close>

text \<open>
  C1 (the code at the failing input). Two touches at the same point \<open>(0,0)\<close> start a
  gesture on the identity transform, so the reference distance is 0; a move event with
  the two touches still at that point divides 0 by 0, and the scale handed to
  \<open>onTransformChange\<close> is \<open>NaN\<close>, which the clamp of line 132 lets through: it is not
  within \<open>[0.2, 5.0]\<close>.
\<close>

theorem scale_is_NaN_when_both_distances_are_zero:
  "map_option scale (snd (handleTouchMove [tch 1 0 0, tch 2 0 0] INITIAL_TRANSFORM
     (handleTouchStart [tch 1 0 0, tch 2 0 0] INITIAL_TRANSFORM (initRefs INITIAL_TRANSFORM))))
   = Some NaN"
  by (simp add: gesture_defs)

text \<open>
  C2 (as amended). There is no guard on a reference distance of 0: the multiplier is the
  plain quotient. When the stored reference distance is 0 and the two touches of the move
  are apart, the quotient is \<open>Infinity\<close> and the scale of the result is the upper bound 5
  of the clamp, for every positive baseline scale; the handler returns a transform, it
  does not raise.
\<close>

theorem zero_reference_distance_saturates:
  assumes "initialGestureData refs = Some g" "distance g = Fin 0"
    and "map_values (updateTouches e) = [t0, t1]" "getDistance t0 t1 = Fin d" "0 < d"
    and "scale (initialTransform refs) = Fin s" "0 < s"
  shows "\<exists>t. snd (handleTouchMove e tr refs) = Some t \<and> scale t = Fin 5"
  unfolding handleTouchMove_two [OF assms(1,3)] using assms(2,4,5,6,7) by simp

text \<open>
  The theorem on a reference taken with one touch (stored distance 0), followed by a
  move with two touches 100 apart.
\<close>

theorem zero_reference_distance_saturates_witness:
  "\<exists>t. snd (handleTouchMove [tch 1 0 0, tch 2 100 0] INITIAL_TRANSFORM
          (handleTouchStart [tch 1 0 0] INITIAL_TRANSFORM (initRefs INITIAL_TRANSFORM))) = Some t
      \<and> scale t = Fin 5"
  by (rule zero_reference_distance_saturates [where d = 100 and s = 1
        and g = "\<lparr>distance = Fin 0, angle = Fin 0, center = \<lparr>x = Fin 0, y = Fin 0\<rparr>\<rparr>"
        and ?t0.0 = "\<lparr>x = Fin 0, y = Fin 0, ident = 1\<rparr>"
        and ?t1.0 = "\<lparr>x = Fin 100, y = Fin 0, ident = 2\<rparr>"])
     (simp_all add: gesture_defs)

text \<open>
  C2 as stated fails: with a stored reference distance of 0, a baseline scale of 1 and the
  two touches 100 apart, the scale of the result is 5, not the clamped baseline scale that
  a multiplier of 1 would give.
\<close>

theorem zero_reference_multiplier_counterexample:
  "map_option scale (snd (handleTouchMove [tch 1 0 0, tch 2 100 0] INITIAL_TRANSFORM
     (handleTouchStart [tch 1 0 0] INITIAL_TRANSFORM (initRefs INITIAL_TRANSFORM))))
   \<noteq> Some (clampScale (jmul (scale INITIAL_TRANSFORM) (scaleMultiplier_spec (Fin 100) (Fin 0))))"
  by (simp add: gesture_defs clampScale_def scaleMultiplier_spec_def)

section \<open>GestureEngine: the pinch scenario\<close>

text \<open>
  C3 (as amended). Two touches at \<open>(0,0)\<close> and \<open>(100,0)\<close> start a gesture on the identity
  transform; the move to \<open>(0,0)\<close> and \<open>(200,0)\<close> yields scale 2 and rotation 0, and
  \<open>x = 50\<close>, \<open>y = 0\<close>: the midpoint of the two touches moves from \<open>(50,0)\<close> to \<open>(100,0)\<close>
  and the overlay follows it.
\<close>

theorem pinch_scenario_result:
  "snd (handleTouchMove [tch 1 0 0, tch 2 200 0] INITIAL_TRANSFORM
     (handleTouchStart [tch 1 0 0, tch 2 100 0] INITIAL_TRANSFORM (initRefs INITIAL_TRANSFORM)))
   = Some \<lparr>x = Fin 50, y = Fin 0, scale = Fin 2, rotation = Fin 0\<rparr>"
  by (simp add: gesture_defs)

text \<open>C3 as stated fails: the result of that move is not \<open>{x:0, y:0, scale:2, rotation:0}\<close>.\<close>

theorem pinch_scenario_counterexample:
  "snd (handleTouchMove [tch 1 0 0, tch 2 200 0] INITIAL_TRANSFORM
     (handleTouchStart [tch 1 0 0, tch 2 100 0] INITIAL_TRANSFORM (initRefs INITIAL_TRANSFORM)))
   \<noteq> Some \<lparr>x = Fin 0, y = Fin 0, scale = Fin 2, rotation = Fin 0\<rparr>"
  by (simp add: gesture_defs)

section \<open>GestureEngine: when a move does nothing\<close>

text \<open>
  C5 (as amended). \<open>onGestureMove\<close> calls \<open>onTransformChange\<close> exactly when a gesture
  reference exists and one or two touches are active. It is a no-op that leaves the current
  transform unchanged whenever no reference exists (no start yet, or the reference was
  cleared by an end), whenever zero touches are active, and whenever three or more are.
  The touch count at the time the reference was taken is not stored and is not compared.
\<close>

theorem move_is_noop_exactly_without_reference_or_count:
  "(snd (handleTouchMove e tr refs) = None) =
     (initialGestureData refs = None \<or>
      (length (updateTouches e) \<noteq> 1 \<and> length (updateTouches e) \<noteq> 2))
   \<and> snd (handleTouchMove [] tr refs) = None
   \<and> (snd (handleTouchMove e tr refs) = None \<longrightarrow> fst (dispatch (TouchMove e) (tr, refs)) = tr)"
  by (auto simp: handleTouchMove_def Let_def length_map_values updateTouches_def
           split: option.splits)

text \<open>
  The theorem at a move before any start, at a move with an empty touch list after a
  start, and at the host's transform after a move without reference.
\<close>

theorem move_is_noop_witness:
  "snd (handleTouchMove [tch 1 0 0] INITIAL_TRANSFORM (initRefs INITIAL_TRANSFORM)) = None
   \<and> snd (handleTouchMove [] INITIAL_TRANSFORM
            (handleTouchStart [tch 1 0 0] INITIAL_TRANSFORM (initRefs INITIAL_TRANSFORM))) = None
   \<and> fst (dispatch (TouchMove [tch 1 5 5]) (INITIAL_TRANSFORM, initRefs INITIAL_TRANSFORM))
       = INITIAL_TRANSFORM"
  using move_is_noop_exactly_without_reference_or_count
          [of "[tch 1 0 0]" INITIAL_TRANSFORM "initRefs INITIAL_TRANSFORM"]
        move_is_noop_exactly_without_reference_or_count
          [of "[tch 1 5 5]" INITIAL_TRANSFORM "initRefs INITIAL_TRANSFORM"]
        move_is_noop_exactly_without_reference_or_count
          [of "[]" INITIAL_TRANSFORM
              "handleTouchStart [tch 1 0 0] INITIAL_TRANSFORM (initRefs INITIAL_TRANSFORM)"]
  by (simp add: initRefs_def)

text \<open>
  C5 as stated fails: a reference taken with one touch is used by a move with two touches
  although no start was called for the new count, and the transform changes.
\<close>

theorem stale_touch_count_counterexample:
  "fst (dispatchAll [TouchStart [tch 1 0 0], TouchMove [tch 1 0 0, tch 2 100 0]]
         (INITIAL_TRANSFORM, initRefs INITIAL_TRANSFORM))
   = \<lparr>x = Fin 50, y = Fin 0, scale = Fin 5, rotation = Fin 0\<rparr>
   \<and> fst (dispatchAll [TouchStart [tch 1 0 0], TouchMove [tch 1 0 0, tch 2 100 0]]
         (INITIAL_TRANSFORM, initRefs INITIAL_TRANSFORM)) \<noteq> INITIAL_TRANSFORM"
  by (simp add: gesture_defs)

section \<open>GestureEngine: re-basing\<close>










section \<open>GestureEngine: rotation\<close>






section \<open>Transparency post-process\<close>

lemma round_thirds:
  assumes "s < 765"
  shows "ToUint8Clamp (Fin (real s / 3)) = of_nat ((s + 1) div 3)"
proof -
  define q where "q = s div 3"
  define m where "m = s mod 3"
  have s: "s = 3 * q + m" and m: "m < 3"
    by (simp_all add: q_def m_def)
  have v: "real s / 3 = real q + real m / 3"
    by (simp add: s)
  have fl: "\<lfloor>real s / 3\<rfloor> = int q"
    unfolding v using m by (intro floor_unique) simp_all
  have lt: "real s / 3 < 255" using assms by simp
  have d: "(s + 1) div 3 = q + (m + 1) div 3"
    unfolding s by presburger
  consider "m = 0" | "m = 1" | "m = 2" using m by linarith
  then show ?thesis
  proof cases
    case 1
    then show ?thesis using lt fl unfolding d by (auto simp: s Let_def)
  next
    case 2
    then show ?thesis using lt fl unfolding d by (auto simp: s Let_def)
  next
    case 3
    then show ?thesis using lt fl unfolding d by (auto simp: s Let_def)
  qed
qed

lemma unat_sum3_le: "unat (r::8 word) + unat (g::8 word) + unat (b::8 word) \<le> 765"
proof -
  have "unat r < 256" "unat g < 256" "unat b < 256"
    using unsigned_less [of r, where 'a = nat] unsigned_less [of g, where 'a = nat]
      unsigned_less [of b, where 'a = nat] by simp_all
  then show ?thesis by linarith
qed

lemma alphaOf_eq:
  "alphaOf r g b =
     (let s = unat r + unat g + unat b in if s < 60 then 0 else of_nat ((s + 1) div 3))"
proof -
  define s where "s = unat r + unat g + unat b"
  have le: "s \<le> 765" unfolding s_def by (rule unat_sum3_le)
  have br: "jdiv (jadd (jadd (Fin (real (unat r))) (Fin (real (unat g)))) (Fin (real (unat b))))
              (Fin 3) = Fin (real s / 3)"
    by (simp add: s_def)
  have "alphaOf r g b = ToUint8Clamp (if s < 60 then Fin 0 else Fin (real s / 3))"
    unfolding alphaOf_def br Let_def by simp
  also have "\<dots> = (if s < 60 then 0 else of_nat ((s + 1) div 3))"
  proof (cases "s < 60")
    case True
    then show ?thesis by simp
  next
    case False
    show ?thesis
    proof (cases "s = 765")
      case True
      then show ?thesis by simp
    next
      case False
      with le have "s < 765" by simp
      from round_thirds [OF this] \<open>\<not> s < 60\<close> show ?thesis by simp
    qed
  qed
  finally show ?thesis by (simp add: s_def Let_def)
qed

lemma nearest_third: "\<bar>real ((s + 1) div 3) - real s / 3\<bar> < 1 / 2"
proof -
  define q where "q = s div 3"
  define m where "m = s mod 3"
  have s: "s = 3 * q + m" and m: "m < 3"
    by (simp_all add: q_def m_def)
  have d: "(s + 1) div 3 = q + (m + 1) div 3"
    unfolding s by presburger
  consider "m = 0" | "m = 1" | "m = 2" using m by linarith
  then show ?thesis
    unfolding d by cases (simp_all add: s field_simps)
qed

lemma loop_unfold:
  "i < length data \<Longrightarrow> transparency_loop i data = transparency_loop (i + 4) (pixel_step i data)"
  by (subst transparency_loop.simps) (simp add: Let_def pixel_step_def)

lemma loop_stop: "\<not> i < length data \<Longrightarrow> transparency_loop i data = data"
  by (subst transparency_loop.simps) simp

declare transparency_loop.simps [simp del]

lemma length_pixel_step: "length (pixel_step i data) = length data"
  by (simp add: pixel_step_def)

lemma pixel_step_other: "j < i \<or> i + 4 \<le> j \<Longrightarrow> pixel_step i data ! j = data ! j"
  by (auto simp: pixel_step_def)

lemma pixel_step_here:
  assumes "i + 3 < length data"
  shows "pixel_step i data ! i = 255" "pixel_step i data ! (i + 1) = 255"
    "pixel_step i data ! (i + 2) = 255"
    "pixel_step i data ! (i + 3) = alphaOf (data ! i) (data ! (i + 1)) (data ! (i + 2))"
  using assms by (simp_all add: pixel_step_def alphaOf_def readU8_def Let_def)

lemma length_transparency_loop: "length (transparency_loop i data) = length data"
proof (induction "length data - i" arbitrary: i data rule: less_induct)
  case less
  show ?case
  proof (cases "i < length data")
    case True
    have "length (transparency_loop (i + 4) (pixel_step i data)) = length (pixel_step i data)"
      using True by (intro less) (simp add: length_pixel_step)
    then show ?thesis
      by (simp add: loop_unfold [OF True] length_pixel_step)
  next
    case False
    then show ?thesis by (simp add: loop_stop)
  qed
qed

lemma transparency_loop_below: "j < i \<Longrightarrow> transparency_loop i data ! j = data ! j"
proof (induction "length data - i" arbitrary: i data rule: less_induct)
  case less
  show ?case
  proof (cases "i < length data")
    case True
    have "transparency_loop (i + 4) (pixel_step i data) ! j = pixel_step i data ! j"
      using True less.prems by (intro less) (simp_all add: length_pixel_step)
    then show ?thesis
      using less.prems by (simp add: loop_unfold [OF True] pixel_step_other)
  next
    case False
    then show ?thesis by (simp add: loop_stop)
  qed
qed

lemma transparency_loop_pixel:
  assumes "4 dvd length data" "4 dvd i" "i \<le> 4 * k" "4 * k < length data"
  shows "transparency_loop i data ! (4 * k) = 255
       \<and> transparency_loop i data ! (4 * k + 1) = 255
       \<and> transparency_loop i data ! (4 * k + 2) = 255
       \<and> transparency_loop i data ! (4 * k + 3)
           = alphaOf (data ! (4 * k)) (data ! (4 * k + 1)) (data ! (4 * k + 2))"
  using assms
proof (induction "length data - i" arbitrary: i data rule: less_induct)
  case less
  have lt: "i < length data" using less.prems by simp
  have k3: "4 * k + 3 < length data" using less.prems(1,4) by (auto simp: dvd_def)
  show ?case
  proof (cases "i = 4 * k")
    case True
    have i3: "i + 3 < length data" using k3 True by simp
    have "\<And>j. j < i + 4 \<Longrightarrow>
            transparency_loop (i + 4) (pixel_step i data) ! j = pixel_step i data ! j"
      by (rule transparency_loop_below)
    then show ?thesis
      unfolding loop_unfold [OF lt] using pixel_step_here [OF i3] by (simp add: True)
  next
    case False
    have i4: "i + 4 \<le> 4 * k" using less.prems(2,3) False by (auto simp: dvd_def)
    have "transparency_loop (i + 4) (pixel_step i data) ! (4 * k) = 255
       \<and> transparency_loop (i + 4) (pixel_step i data) ! (4 * k + 1) = 255
       \<and> transparency_loop (i + 4) (pixel_step i data) ! (4 * k + 2) = 255
       \<and> transparency_loop (i + 4) (pixel_step i data) ! (4 * k + 3)
           = alphaOf (pixel_step i data ! (4 * k)) (pixel_step i data ! (4 * k + 1))
                     (pixel_step i data ! (4 * k + 2))"
      using lt less.prems i4 by (intro less) (simp_all add: length_pixel_step)
    then show ?thesis
      unfolding loop_unfold [OF lt] using i4 by (simp add: pixel_step_other)
  qed
qed

text \<open>
  C8 (as amended). The post-process keeps the length of the RGBA array and maps every
  pixel \<open>(r, g, b, alpha)\<close> to \<open>(255, 255, 255, a')\<close>, where with \<open>luma = (r + g + b) / 3\<close> the
  new alpha \<open>a'\<close> is 0 when \<open>luma < 20\<close> and otherwise \<open>luma\<close> rounded to the nearest integer
  (the store into the 8-bit clamped array rounds: \<open>a' = (r + g + b + 1) div 3\<close>, less than
  one half away from \<open>luma\<close>).
\<close>

theorem transparency_post_process:
  assumes "length data = 4 * n" "k < n"
  shows "length (processPixels data) = length data
       \<and> processPixels data ! (4 * k) = 255
       \<and> processPixels data ! (4 * k + 1) = 255
       \<and> processPixels data ! (4 * k + 2) = 255
       \<and> (let s = unat (data ! (4 * k)) + unat (data ! (4 * k + 1)) + unat (data ! (4 * k + 2))
          in processPixels data ! (4 * k + 3) = (if s < 60 then 0 else of_nat ((s + 1) div 3))
             \<and> (60 \<le> s \<longrightarrow>
                  \<bar>real (unat (processPixels data ! (4 * k + 3))) - real s / 3\<bar> < 1 / 2))"
proof -
  define s where "s = unat (data ! (4 * k)) + unat (data ! (4 * k + 1)) + unat (data ! (4 * k + 2))"
  have px: "processPixels data ! (4 * k) = 255
       \<and> processPixels data ! (4 * k + 1) = 255
       \<and> processPixels data ! (4 * k + 2) = 255
       \<and> processPixels data ! (4 * k + 3)
           = alphaOf (data ! (4 * k)) (data ! (4 * k + 1)) (data ! (4 * k + 2))"
    unfolding processPixels_def using assms by (intro transparency_loop_pixel) simp_all
  then have a: "processPixels data ! (4 * k + 3) = (if s < 60 then 0 else of_nat ((s + 1) div 3))"
    by (simp add: alphaOf_eq s_def Let_def)
  have "s \<le> 765" unfolding s_def by (rule unat_sum3_le)
  then have "(s + 1) div 3 < 256" by simp
  then have u: "unat (of_nat ((s + 1) div 3) :: 8 word) = (s + 1) div 3"
    by (simp add: unat_of_nat)
  have near: "60 \<le> s \<longrightarrow> \<bar>real (unat (processPixels data ! (4 * k + 3))) - real s / 3\<bar> < 1 / 2"
  proof
    assume "60 \<le> s"
    then have "processPixels data ! (4 * k + 3) = of_nat ((s + 1) div 3)"
      using a by simp
    then have "real (unat (processPixels data ! (4 * k + 3))) = real ((s + 1) div 3)"
      using u by (simp only:)
    then show "\<bar>real (unat (processPixels data ! (4 * k + 3))) - real s / 3\<bar> < 1 / 2"
      using nearest_third [of s] by (simp only:)
  qed
  have len: "length (processPixels data) = length data"
    unfolding processPixels_def by (rule length_transparency_loop)
  show ?thesis
    unfolding Let_def s_def [symmetric] using len px a near by blast
qed

lemma processPixels_eval:
  "processPixels [10, 10, 10, 255, 200, 200, 200, 7] = [255, 255, 255, 0, 255, 255, 255, 200]"
  by (simp add: processPixels_def loop_unfold loop_stop pixel_step_def readU8_def)

text \<open>
  The theorem on the two pixels of the scenario: \<open>r = g = b = 10\<close> gets alpha 0, and
  \<open>r = g = b = 200\<close> gets alpha 200, both white.
\<close>

theorem transparency_post_process_witness:
  "processPixels [10, 10, 10, 255, 200, 200, 200, 7] ! 3 = 0
   \<and> processPixels [10, 10, 10, 255, 200, 200, 200, 7] ! 7 = 200
   \<and> processPixels [10, 10, 10, 255, 200, 200, 200, 7] = [255, 255, 255, 0, 255, 255, 255, 200]"
proof -
  let ?D = "[10, 10, 10, 255, 200, 200, 200, 7] :: 8 word list"
  have len: "length ?D = 4 * 2" by simp
  have "processPixels ?D ! (4 * 0 + 3) = 0"
    using transparency_post_process [OF len, of 0] by (simp add: Let_def)
  moreover have "processPixels ?D ! (4 * 1 + 3) = 200"
    using transparency_post_process [OF len, of 1] by (simp add: Let_def)
  ultimately show ?thesis
    by (simp add: processPixels_eval)
qed

text \<open>
  C8 as stated fails: the pixel \<open>(20, 20, 21)\<close> has \<open>luma = 61/3\<close> and gets alpha 20,
  which is not the luma value itself.
\<close>

theorem luma_is_rounded_counterexample:
  "processPixels [20, 20, 21, 255] = [255, 255, 255, 20]
   \<and> Fin (real (unat (processPixels [20, 20, 21, 255] ! 3)))
       \<noteq> jdiv (jadd (jadd (Fin 20) (Fin 20)) (Fin 21)) (Fin 3)"
  by (simp add: processPixels_def loop_unfold loop_stop pixel_step_def readU8_def)

section \<open>Composited frame: the markers\<close>

text \<open>
  C9. Every composited frame carries exactly two text calls: the glyph \<open>R\<close> at \<open>x = 20\<close>, at
  the left edge of the raster, and the glyph \<open>L\<close> at \<open>x = width - 50\<close>, at its right edge, both
  at half the height. Both are drawn with no transform in force (the transform of the
  pose overlay is restored before), so these are raster coordinates; on a raster wider
  than 70 the glyph \<open>R\<close> is to the left of the glyph \<open>L\<close>. The callback does not read the
  facing mode: the frame, and with it the placement of the markers, is the same for the
  front and the back camera.
\<close>

theorem markers_fixed_for_every_facing_mode:
  "compositeFrame (st\<lparr>facingMode := m\<rparr>) = compositeFrame st
   \<and> (\<forall>fr. compositeFrame st = Some fr \<longrightarrow>
         textCalls (calls fr) =
           [(''R'', Fin 20, Fin (real (canvasHeight fr) / 2)),
            (''L'', Fin (real (canvasWidth fr) - 50), Fin (real (canvasHeight fr) / 2))]
         \<and> drawnText (calls fr) =
           [(''R'', Fin 20, Fin (real (canvasHeight fr) / 2), []),
            (''L'', Fin (real (canvasWidth fr) - 50), Fin (real (canvasHeight fr) / 2), [])]
         \<and> (70 < canvasWidth fr \<longrightarrow> (20 :: real) < real (canvasWidth fr) - 50))"
  by (auto simp: compositeFrame_def Let_def jsub_def drawnText_def split: option.splits)

text \<open>The theorem on a 1280 by 720 video, front and back camera: a 640 by 360 raster.\<close>

theorem markers_witness:
  "map_option (\<lambda>fr. textCalls (calls fr)) (compositeFrame (st0\<lparr>facingMode := User\<rparr>))
     = Some [(''R'', Fin 20, Fin 180), (''L'', Fin 590, Fin 180)]
   \<and> map_option (\<lambda>fr. textCalls (calls fr)) (compositeFrame st0)
     = Some [(''R'', Fin 20, Fin 180), (''L'', Fin 590, Fin 180)]
   \<and> map_option (\<lambda>fr. drawnText (calls fr)) (compositeFrame st0)
     = Some [(''R'', Fin 20, Fin 180, []), (''L'', Fin 590, Fin 180, [])]"
  using markers_fixed_for_every_facing_mode [where st = st0 and m = User]
  by (simp add: st0_def compositeFrame_def Let_def jsub_def truncateReal_def
        INITIAL_TRANSFORM_def Math_PI_def drawnText_def)

section \<open>Microphone PCM conversion\<close>

lemma truncate_bounds:
  assumes "- 32767 \<le> v" "v \<le> 32767"
  shows "- 32767 \<le> truncateReal v \<and> truncateReal v \<le> 32767"
proof (cases "0 \<le> v")
  case True
  then have "0 \<le> \<lfloor>v\<rfloor>" by simp
  moreover have "\<lfloor>v\<rfloor> \<le> 32767" using assms(2) by (simp add: floor_le_iff)
  ultimately show ?thesis using True by (simp add: truncateReal_def)
next
  case False
  then have "\<lceil>v\<rceil> \<le> 0" by (simp add: ceiling_le_iff)
  moreover have "- 32767 \<le> \<lceil>v\<rceil>" using assms(1) by (simp add: le_ceiling_iff)
  ultimately show ?thesis using False by (simp add: truncateReal_def)
qed

lemma sint_word_of_int_16:
  assumes "- 32767 \<le> k" "k \<le> 32767"
  shows "sint (word_of_int k :: 16 word) = k"
proof -
  have "(k + 32768) mod 65536 = k + 32768"
    using assms by simp
  then show ?thesis
    by (simp add: int_word_sint)
qed

lemma ToInt16_in_range:
  assumes "- 32767 \<le> v" "v \<le> 32767"
  shows "sint (ToInt16 (Fin v)) = truncateReal v"
    and "- 32767 \<le> sint (ToInt16 (Fin v))" and "sint (ToInt16 (Fin v)) \<le> 32767"
proof -
  have b: "- 32767 \<le> truncateReal v" "truncateReal v \<le> 32767"
    using truncate_bounds [OF assms] by blast+
  show e: "sint (ToInt16 (Fin v)) = truncateReal v"
    unfolding ToInt16.simps by (rule sint_word_of_int_16 [OF b])
  show "- 32767 \<le> sint (ToInt16 (Fin v))" and "sint (ToInt16 (Fin v)) \<le> 32767"
    unfolding e using b by blast+
qed

lemma pcmValue_Fin_bounds:
  "\<exists>v. pcmValue (Fin a) = Fin v \<and> - 32767 \<le> v \<and> v \<le> 32767"
  by (simp add: pcmValue_def max_def min_def)

lemma pcm_sample: "pcmSampleOk s (ToInt16 (pcmValue s))"
proof (cases s)
  case (Fin a)
  obtain v where pv: "pcmValue (Fin a) = Fin v" and b: "- 32767 \<le> v" "v \<le> 32767"
    using pcmValue_Fin_bounds by blast
  show ?thesis
    unfolding pcmSampleOk_def Fin pv using ToInt16_in_range [OF b] b by simp
next
  case PInf
  have pv: "pcmValue PInf = Fin 32767" by (simp add: pcmValue_def)
  have b: "- 32767 \<le> (32767::real)" "(32767::real) \<le> 32767" by simp_all
  show ?thesis
    unfolding pcmSampleOk_def PInf pv using ToInt16_in_range [OF b] by simp
next
  case NInf
  have pv: "pcmValue NInf = Fin (- 32767)" by (simp add: pcmValue_def)
  have b: "- 32767 \<le> (- 32767::real)" "(- 32767::real) \<le> 32767" by simp_all
  show ?thesis
    unfolding pcmSampleOk_def NInf pv using ToInt16_in_range [OF b] by simp
next
  case NaN
  have pv: "pcmValue NaN = NaN" by (simp add: pcmValue_def)
  show ?thesis
    unfolding pcmSampleOk_def NaN pv by simp
qed

lemma pcmConvert_nth:
  "i < length inputData \<Longrightarrow> pcmConvert inputData ! i = ToInt16 (pcmValue (inputData ! i))"
proof (induction inputData arbitrary: i)
  case Nil
  then show ?case by simp
next
  case (Cons s rest)
  then show ?case by (cases i) simp_all
qed

lemma length_pcmConvert: "length (pcmConvert inputData) = length inputData"
  by (induction inputData) simp_all

text \<open>
  C10. The conversion produces one 16-bit sample for each input sample, and each produced
  sample lies within \<open>[-32767, 32767]\<close>: the input is clamped to \<open>[-1, 1]\<close> before it is
  scaled by 32767, so the scaled value is within that range and the stored sample is that
  value truncated towards zero, never a wrapped one. A \<open>NaN\<close> sample is stored as 0.
\<close>

theorem pcm_samples_within_int16:
  "length (pcmConvert inputData) = length inputData
   \<and> (\<forall>i < length inputData.
         - 32767 \<le> sint (pcmConvert inputData ! i) \<and> sint (pcmConvert inputData ! i) \<le> 32767
         \<and> (case pcmValue (inputData ! i) of
               Fin v \<Rightarrow> - 32767 \<le> v \<and> v \<le> 32767
                         \<and> sint (pcmConvert inputData ! i) = truncateReal v
             | _ \<Rightarrow> inputData ! i = NaN \<and> pcmConvert inputData ! i = 0))"
proof (intro conjI allI impI)
  show "length (pcmConvert inputData) = length inputData"
    by (rule length_pcmConvert)
next
  fix i assume "i < length inputData"
  then have e: "pcmConvert inputData ! i = ToInt16 (pcmValue (inputData ! i))"
    by (rule pcmConvert_nth)
  have ok: "pcmSampleOk (inputData ! i) (pcmConvert inputData ! i)"
    unfolding e by (rule pcm_sample)
  show "- 32767 \<le> sint (pcmConvert inputData ! i)"
    and "sint (pcmConvert inputData ! i) \<le> 32767"
    and "(case pcmValue (inputData ! i) of
               Fin v \<Rightarrow> - 32767 \<le> v \<and> v \<le> 32767
                         \<and> sint (pcmConvert inputData ! i) = truncateReal v
             | _ \<Rightarrow> inputData ! i = NaN \<and> pcmConvert inputData ! i = 0)"
    using ok unfolding pcmSampleOk_def by blast+
qed

lemma pcm_eval:
  "pcmConvert [Fin 0.5, Fin 2, Fin (- 3), NaN] = [16383, 32767, - 32767, 0]"
  by (simp add: pcmValue_def truncateReal_def)

text \<open>
  The theorem on a buffer with a sample inside the range, two outside it and a \<open>NaN\<close>.
\<close>

theorem pcm_samples_witness:
  "pcmConvert [Fin 0.5, Fin 2, Fin (- 3), NaN] = [16383, 32767, - 32767, 0]
   \<and> - 32767 \<le> sint (pcmConvert [Fin 0.5, Fin 2, Fin (- 3), NaN] ! 1)
   \<and> sint (pcmConvert [Fin 0.5, Fin 2, Fin (- 3), NaN] ! 1) \<le> 32767"
proof -
  let ?L = "[Fin 0.5, Fin 2, Fin (- 3), NaN]"
  have "1 < length ?L" by simp
  with pcm_samples_within_int16 [of ?L]
  have "- 32767 \<le> sint (pcmConvert ?L ! 1) \<and> sint (pcmConvert ?L ! 1) \<le> 32767"
    by blast
  moreover have "pcmConvert ?L = [16383, 32767, - 32767, 0]"
    by (rule pcm_eval)
  ultimately show ?thesis by blast
qed

end
